theory Spec2Isabelle
  imports Complex_Main
begin

section \<open>Data model of the portfolio tracker\<close>

text \<open>
  The page keeps the portfolio in \<^verbatim>\<open>st.session_state.portfolio\<close>, a Python list of
  dictionaries with the seven keys written by the ``Add to Portfolio'' handler. A dictionary
  of that shape is a record here. \<^verbatim>\<open>quantity\<close> comes from an integer number input;
  \<^verbatim>\<open>buy_price\<close> and \<^verbatim>\<open>current_price\<close> are Python numbers, floats when they come
  from the page, modelled by their exact rational values: only finite prices are
  modelled. The arithmetic of the data frame on them is modelled with the derived metrics.
\<close>

record holding =
  symbol :: string
  name :: string
  quantity :: int
  buy_price :: rat
  buy_date :: string
  current_price :: rat
  exchange :: string

text \<open>
  Exceptions of the Python run time and of the libraries that the page catches. The page
  only ever uses bare \<^verbatim>\<open>except\<close> clauses, so the constructor never matters to it.
\<close>

datatype error = IndexError | ProviderError string

fun str :: "error \<Rightarrow> string" where
  "str IndexError = ''single positional indexer is out-of-bounds''"
| "str (ProviderError msg) = msg"

text \<open>
  What the page shows through \<^verbatim>\<open>st.error\<close>, \<^verbatim>\<open>st.success\<close> and
  \<^verbatim>\<open>st.warning\<close>.
\<close>

datatype ui_message = Error string | Success string | Warning string

text \<open>
  The part of the session that the handlers change: the list in
  \<^verbatim>\<open>st.session_state.portfolio\<close>, and the list handed to \<^verbatim>\<open>json.dumps\<close> for the
  \<^verbatim>\<open>portfolio\<close> query parameter (\<open>None\<close> while the parameter is not set). The JSON
  text itself is produced by the standard library and is not modelled.
\<close>

record session =
  portfolio :: "holding list"
  query_portfolio :: "holding list option"

definition save_portfolio :: "holding list \<Rightarrow> session \<Rightarrow> session" where
  "save_portfolio new_portfolio st =
     st\<lparr>portfolio := new_portfolio, query_portfolio := Some new_portfolio\<rparr>"

section \<open>Refreshing the current prices\<close>

text \<open>
  \<^verbatim>\<open>yf.Ticker(ticker).history(period="1d")['Close']\<close> is the provider's answer for a symbol:
  it raises, or it gives the column of closing prices, which may be empty.
  \<^verbatim>\<open>.iloc[-1]\<close> takes the last entry and raises \<^verbatim>\<open>IndexError\<close> on an empty column.
\<close>

type_synonym price_history = "string \<Rightarrow> error + rat list"

definition iloc_last :: "rat list \<Rightarrow> error + rat" where
  "iloc_last closes = (if closes = [] then Inl IndexError else Inr (last closes))"

definition fetch_current_price :: "price_history \<Rightarrow> string \<Rightarrow> error + rat" where
  "fetch_current_price history ticker =
     (case history ticker of Inl e \<Rightarrow> Inl e | Inr closes \<Rightarrow> iloc_last closes)"

text \<open>
  The body of the loop over the holdings: the inner \<^verbatim>\<open>try\<close> appends a copy of the
  holding with the new price, the bare \<^verbatim>\<open>except\<close> appends the holding as it was.
\<close>

definition refresh_holding :: "price_history \<Rightarrow> holding \<Rightarrow> holding" where
  "refresh_holding history h =
     (case fetch_current_price history (symbol h) of
        Inr p \<Rightarrow> h\<lparr>current_price := p\<rparr>
      | Inl e \<Rightarrow> h)"

fun refresh_loop :: "price_history \<Rightarrow> holding list \<Rightarrow> holding list \<Rightarrow> holding list" where
  "refresh_loop history new_portfolio [] = new_portfolio"
| "refresh_loop history new_portfolio (h # rest) =
     refresh_loop history (new_portfolio @ [refresh_holding history h]) rest"

definition refresh_prices :: "price_history \<Rightarrow> session \<Rightarrow> session" where
  "refresh_prices history st =
     (let new_portfolio = refresh_loop history [] (portfolio st)
      in save_portfolio new_portfolio (st\<lparr>portfolio := new_portfolio\<rparr>))"

section \<open>The ``Add to Portfolio'' handler\<close>

text \<open>
  The handler behind the button. \<open>ticker_symbol\<close> is the part of the selected label
  before \<^verbatim>\<open>" | "\<close>; \<open>selected_name\<close> and \<open>selected_exchange\<close> stand for the two
  expressions that cut the display name and the exchange out of the same label;
  \<open>date\<close> is \<^verbatim>\<open>buy_date.strftime("%Y-%m-%d")\<close>. The quantity and the price come from
  the number inputs of the form (declared with \<^verbatim>\<open>min_value=1\<close> and
  \<^verbatim>\<open>min_value=0.01\<close>); the handler itself tests the symbol only.
\<close>

definition add_to_portfolio ::
  "string \<Rightarrow> string \<Rightarrow> int \<Rightarrow> rat \<Rightarrow> string \<Rightarrow> rat \<Rightarrow> string \<Rightarrow> session
     \<Rightarrow> session \<times> ui_message list" where
  "add_to_portfolio ticker_symbol selected_name qty price date cur selected_exchange st =
     (if ticker_symbol = []
      then (st, [Error ''Please select a valid stock''])
      else
        (let new_portfolio = portfolio st @
               [\<lparr>symbol = ticker_symbol, name = selected_name, quantity = qty,
                 buy_price = price, buy_date = date, current_price = cur,
                 exchange = selected_exchange\<rparr>]
         in (save_portfolio new_portfolio st,
             [Success (''Added '' @ ticker_symbol @ '' to portfolio!'')])))"

section \<open>The ``Remove Selected Stock'' handler\<close>

text \<open>
  \<open>selected_index\<close> is the number in front of the chosen label, minus one. Inside the
  range the handler keeps every item whose position differs from it; outside the range
  the \<^verbatim>\<open>if\<close> has no \<^verbatim>\<open>else\<close>: nothing is saved and nothing is shown.
\<close>

definition remove_selected_stock :: "int \<Rightarrow> session \<Rightarrow> session \<times> ui_message list" where
  "remove_selected_stock selected_index st =
     (if 0 \<le> selected_index \<and> selected_index < int (length (portfolio st))
      then
        (let removed_stock = portfolio st ! nat selected_index;
             new_portfolio =
               [item. (i, item) \<leftarrow> enumerate 0 (portfolio st), int i \<noteq> selected_index]
         in (save_portfolio new_portfolio st,
             [Success (''Removed '' @ symbol removed_stock @ '' from portfolio!'')]))
      else (st, []))"

section \<open>The derived metrics\<close>

text \<open>
  The metrics are computed column by column on the data frame built from the portfolio,
  in the arithmetic of pandas' numeric columns: \<^verbatim>\<open>int64\<close> for a column of Python ints,
  \<^verbatim>\<open>float64\<close> (IEEE 754 binary64) for a column with a float, and \<^verbatim>\<open>float64\<close> for every
  quotient. That arithmetic rounds, wraps around and overflows, and which of the two
  types a column has depends on the Python types of all its entries, which the record
  \<open>holding\<close> does not keep. So a cell of a computed column is modelled by what is
  certain of it in either type:
  \<^item> \<open>Holds r\<close>: the cell holds exactly the number \<open>r\<close>;
  \<^item> \<open>NotFinite\<close>: the cell holds \<open>inf\<close>, \<open>-inf\<close> or \<open>nan\<close>;
  \<^item> \<open>Undetermined\<close>: the model does not say what the cell holds (the exact result is
    rounded or wrapped around, or an operand is).

  The facts of the arithmetic that the model uses: an operation on exactly held operands
  whose exact result is a binary64 number, and lies within \<^verbatim>\<open>int64\<close> where the
  column may be an integer one, gives that result; a binary64 product of magnitude
  \<open>2^1024\<close> or more overflows to an infinity; a non-finite operand of a difference
  makes it non-finite; a product with a factor 0 is 0; any value divided by zero is
  non-finite (pandas divides integer columns as floats and does not raise); a non-finite
  value times a number is non-finite.
\<close>

datatype cell = Holds rat | NotFinite | Undetermined

text \<open>
  The finite binary64 numbers are the multiples \<open>n * 2^-1074\<close> of the smallest
  subnormal with magnitude below \<open>2^1024\<close> whose significand, the odd part of \<open>n\<close>, has
  at most 53 bits.
\<close>

function odd_part :: "int \<Rightarrow> int" where
  "odd_part n = (if n = 0 \<or> odd n then n else odd_part (n div 2))"
  by pat_completeness auto
termination
  by (relation "measure (\<lambda>n. nat \<bar>n\<bar>)") auto

definition is_binary64 :: "rat \<Rightarrow> bool" where
  "is_binary64 r \<longleftrightarrow>
     of_int \<lfloor>r * 2 ^ 1074\<rfloor> = r * 2 ^ 1074 \<and> \<bar>r\<bar> < 2 ^ 1024 \<and>
     odd_part \<bar>\<lfloor>r * 2 ^ 1074\<rfloor>\<bar> < 2 ^ 53"

text \<open>A number that a float64 cell holds exactly, and an int64 cell too if it is an integer.\<close>

definition held :: "rat \<Rightarrow> bool" where
  "held r \<longleftrightarrow> is_binary64 r \<and> \<bar>r\<bar> < 2 ^ 63"

definition cell_mul :: "int \<Rightarrow> rat \<Rightarrow> cell" where
  "cell_mul q p =
     (if q = 0 \<or> p = 0 then Holds 0
      else if held (of_int q) \<and> is_binary64 p
      then (if held (of_int q * p) then Holds (of_int q * p)
            else if 2 ^ 1024 \<le> \<bar>of_int q * p\<bar> then NotFinite
            else Undetermined)
      else Undetermined)"

fun cell_sub :: "cell \<Rightarrow> cell \<Rightarrow> cell" where
  "cell_sub (Holds a) (Holds b) =
     (if is_binary64 a \<and> is_binary64 b \<and> held (a - b) then Holds (a - b) else Undetermined)"
| "cell_sub NotFinite y = NotFinite"
| "cell_sub x NotFinite = NotFinite"
| "cell_sub x y = Undetermined"

fun cell_truediv :: "cell \<Rightarrow> cell \<Rightarrow> cell" where
  "cell_truediv x (Holds b) =
     (if b = 0 then NotFinite
      else (case x of
              Holds a \<Rightarrow>
                if is_binary64 a \<and> is_binary64 b \<and> is_binary64 (a / b) then Holds (a / b)
                else Undetermined
            | NotFinite \<Rightarrow> NotFinite
            | Undetermined \<Rightarrow> Undetermined))"
| "cell_truediv NotFinite NotFinite = NotFinite"
| "cell_truediv x y = Undetermined"

fun cell_times :: "cell \<Rightarrow> rat \<Rightarrow> cell" where
  "cell_times (Holds a) k =
     (if is_binary64 a \<and> is_binary64 k \<and> is_binary64 (a * k) then Holds (a * k)
      else Undetermined)"
| "cell_times NotFinite k = NotFinite"
| "cell_times Undetermined k = Undetermined"

definition series_mul :: "int list \<Rightarrow> rat list \<Rightarrow> cell list" where
  "series_mul qs ps = map2 cell_mul qs ps"

definition series_sub :: "cell list \<Rightarrow> cell list \<Rightarrow> cell list" where
  "series_sub xs ys = map2 cell_sub xs ys"

definition series_truediv :: "cell list \<Rightarrow> cell list \<Rightarrow> cell list" where
  "series_truediv xs ys = map2 cell_truediv xs ys"

definition series_times :: "cell list \<Rightarrow> rat \<Rightarrow> cell list" where
  "series_times xs k = map (\<lambda>x. cell_times x k) xs"

record frame_row =
  investment_cell :: cell
  current_value_cell :: cell
  pnl_cell :: cell
  pnl_pct_cell :: cell

definition frame_rows ::
  "cell list \<Rightarrow> cell list \<Rightarrow> cell list \<Rightarrow> cell list \<Rightarrow> frame_row list" where
  "frame_rows invs vals pnls pcts =
     map (\<lambda>(a, b, c, d).
            \<lparr>investment_cell = a, current_value_cell = b, pnl_cell = c, pnl_pct_cell = d\<rparr>)
       (zip invs (zip vals (zip pnls pcts)))"

definition compute_rows :: "holding list \<Rightarrow> frame_row list" where
  "compute_rows hs =
     (let quantity_col = map quantity hs;
          buy_price_col = map buy_price hs;
          current_price_col = map current_price hs;
          investment_col = series_mul quantity_col buy_price_col;
          current_value_col = series_mul quantity_col current_price_col;
          pnl_col = series_sub current_value_col investment_col;
          pnl_pct_col = series_times (series_truediv pnl_col investment_col) 100
      in frame_rows investment_col current_value_col pnl_col pnl_pct_col)"

text \<open>
  The model is about data frames whose columns are numeric: every quantity is an integer
  within \<^verbatim>\<open>int64\<close> and every price is a float or an integer within \<^verbatim>\<open>int64\<close>; a
  price of magnitude \<open>2^63\<close> or more is a float. (A Python int beyond \<^verbatim>\<open>int64\<close>
  makes pandas fall back to a column of Python objects, which is not modelled.)
\<close>

definition numeric_price :: "rat \<Rightarrow> bool" where
  "numeric_price p \<longleftrightarrow> is_binary64 p \<or> (of_int \<lfloor>p\<rfloor> = p \<and> \<bar>p\<bar> < 2 ^ 63)"

definition numeric_columns :: "holding list \<Rightarrow> bool" where
  "numeric_columns hs \<longleftrightarrow>
     list_all (\<lambda>h. \<bar>quantity h\<bar> < 2 ^ 63 \<and> numeric_price (buy_price h) \<and>
                   numeric_price (current_price h)) hs"




text \<open>The holding of the worked scenario, with its current price left open.\<close>

definition scenario_holding :: "rat \<Rightarrow> holding" where
  "scenario_holding cur =
     \<lparr>symbol = ''A'', name = ''Alpha'', quantity = 10, buy_price = 100,
      buy_date = ''2023-01-02'', current_price = cur, exchange = ''NSE''\<rparr>"

section \<open>Historical price\<close>

text \<open>
  Dates are day numbers. The provider's daily history of a symbol is a list of sessions
  (date, close). \<^verbatim>\<open>yf.download(ticker, start=..., end=..., interval="1d")\<close> belongs
  to the provider library: it gives the sessions with \<open>start \<le> date < end\<close>, in the
  order of the history, or raises.
\<close>

type_synonym sessions = "(int \<times> rat) list"

definition yf_download :: "sessions \<Rightarrow> int \<Rightarrow> int \<Rightarrow> sessions" where
  "yf_download history start end_date =
     filter (\<lambda>(d, c). start \<le> d \<and> d < end_date) history"

definition get_historical_price :: "error + sessions \<Rightarrow> int \<Rightarrow> rat option" where
  "get_historical_price provider date =
     (case provider of
        Inl e \<Rightarrow> None
      | Inr history \<Rightarrow>
          (let end_date = date + 1;
               data = yf_download history (date - 7) end_date
           in if data \<noteq> []
              then (let data' = filter (\<lambda>(d, c). d \<le> date) data
                    in if data' \<noteq> [] then Some (snd (last data')) else None)
              else None))"

text \<open>A history with a gap of more than a week before day 20, and sessions after it.\<close>

definition scenario_history :: sessions where
  "scenario_history = [(3, 95), (10, 97), (16, 101), (17, 102), (21, 110)]"

section \<open>Ticker search\<close>

text \<open>
  The search answer is the decoded JSON object of the provider, or an exception of the
  request or of the decoding. Of the object only the key \<^verbatim>\<open>quotes\<close> is read; a quote
  is a dictionary of strings.
\<close>

type_synonym quote = "string \<rightharpoonup> string"

record recommendation =
  rec_symbol :: string
  rec_name :: string
  rec_exchange :: string

definition dict_get :: "('k \<rightharpoonup> 'v) \<Rightarrow> 'k \<Rightarrow> 'v \<Rightarrow> 'v" where
  "dict_get d k dflt = (case d k of None \<Rightarrow> dflt | Some v \<Rightarrow> v)"

definition recommendation_of :: "quote \<Rightarrow> recommendation" where
  "recommendation_of q =
     (let sym0 = dict_get q ''symbol'' [];
          nm = dict_get q ''shortname'' (dict_get q ''longname'' []);
          exch = dict_get q ''exchange'' ''Unknown'';
          sym1 = (if exch = ''NSE'' then sym0
                  else if exch \<in> set [''BSE'', ''BOM''] then sym0
                  else sym0)
      in \<lparr>rec_symbol = sym1, rec_name = nm, rec_exchange = exch\<rparr>)"

fun recommendations_loop :: "recommendation list \<Rightarrow> quote list \<Rightarrow> recommendation list" where
  "recommendations_loop recommendations [] = recommendations"
| "recommendations_loop recommendations (q # rest) =
     recommendations_loop (recommendations @ [recommendation_of q]) rest"

definition get_ticker_recommendations ::
  "error + (string \<rightharpoonup> quote list) \<Rightarrow> recommendation list \<times> ui_message list" where
  "get_ticker_recommendations response =
     (case response of
        Inl e \<Rightarrow> ([], [Error (''Search error: '' @ str e)])
      | Inr data \<Rightarrow> (recommendations_loop [] (take 8 (dict_get data ''quotes'' [])), []))"

section \<open>Portfolio totals\<close>

text \<open>
  Modelled from the spec: the page computes no portfolio totals (after the four row
  metrics it goes on to the table and the charts), so \<open>aggregate\<close> follows section 4.2
  of the specification: the sums across the rows, and
  \<open>total_pnl_pct = total_pnl / total_investment * 100\<close>, defined as 0 when the total
  investment is 0. Its rows are the derived rows of section 3 of the specification:
  three numbers and a percentage that is a number or undefined.
\<close>

datatype float64 = Finite rat | NonFinite

record derived_row =
  investment :: rat
  current_value :: rat
  pnl :: rat
  pnl_pct :: float64

record aggregates =
  total_investment :: rat
  total_current_value :: rat
  total_pnl :: rat
  total_pnl_pct :: rat

definition aggregate :: "derived_row list \<Rightarrow> aggregates" where
  "aggregate rows =
     (let ti = sum_list (map investment rows);
          tv = sum_list (map current_value rows);
          tp = sum_list (map pnl rows)
      in \<lparr>total_investment = ti, total_current_value = tv, total_pnl = tp,
          total_pnl_pct = (if ti = 0 then 0 else tp / ti * 100)\<rparr>)"

text \<open>
  A session with two holdings, and a provider that raises for \<open>X\<close> and answers 150
  for every other symbol.
\<close>

definition stale_holding :: holding where
  "stale_holding =
     \<lparr>symbol = ''X'', name = ''Xenon'', quantity = 3, buy_price = 40,
      buy_date = ''2023-01-02'', current_price = 42, exchange = ''BSE''\<rparr>"

definition scenario_session :: session where
  "scenario_session =
     \<lparr>portfolio = [stale_holding, scenario_holding 100], query_portfolio = None\<rparr>"

definition failing_for_X :: price_history where
  "failing_for_X ticker =
     (if ticker = ''X'' then Inl (ProviderError ''no data'') else Inr [149, 150])"

section \<open>Properties of the price refresh\<close>

lemma refresh_loop_map:
  "refresh_loop history acc hs = acc @ map (refresh_holding history) hs"
  by (induction hs arbitrary: acc) simp_all

lemma portfolio_refresh_prices:
  "portfolio (refresh_prices history st) = map (refresh_holding history) (portfolio st)"
  by (simp add: refresh_prices_def save_portfolio_def refresh_loop_map Let_def)

text \<open>
  Claim C1. The refreshed portfolio has one holding per holding of the old one, in the same
  order. Where the provider gives closing prices for a holding's symbol, the holding is
  the old one with \<open>current_price\<close> replaced by the last of them; where the provider
  raises or gives nothing, the holding is the old one unchanged, so it is neither dropped
  nor is its price set to zero. A failing lookup never stops the loop: the whole refreshed
  list is stored in the session and handed to persistence.
\<close>

theorem refresh_prices_keeps_stale:
  "length (portfolio (refresh_prices history st)) = length (portfolio st) \<and>
   (\<forall>i < length (portfolio st).
      (\<forall>closes. history (symbol (portfolio st ! i)) = Inr closes \<and> closes \<noteq> [] \<longrightarrow>
         portfolio (refresh_prices history st) ! i =
           (portfolio st ! i)\<lparr>current_price := last closes\<rparr>) \<and>
      (history (symbol (portfolio st ! i)) = Inr [] \<longrightarrow>
         portfolio (refresh_prices history st) ! i = portfolio st ! i) \<and>
      (\<forall>e. history (symbol (portfolio st ! i)) = Inl e \<longrightarrow>
         portfolio (refresh_prices history st) ! i = portfolio st ! i)) \<and>
   query_portfolio (refresh_prices history st) = Some (portfolio (refresh_prices history st))"
proof -
  have len: "length (portfolio (refresh_prices history st)) = length (portfolio st)"
    by (simp add: portfolio_refresh_prices)
  have nth: "portfolio (refresh_prices history st) ! i = refresh_holding history (portfolio st ! i)"
    if "i < length (portfolio st)" for i
    using that by (simp add: portfolio_refresh_prices)
  have saved: "query_portfolio (refresh_prices history st) = Some (portfolio (refresh_prices history st))"
    by (simp add: refresh_prices_def save_portfolio_def Let_def)
  have step: "refresh_holding history h =
      (case history (symbol h) of
         Inl e \<Rightarrow> h
       | Inr closes \<Rightarrow> if closes = [] then h else h\<lparr>current_price := last closes\<rparr>)" for h
    by (simp add: refresh_holding_def fetch_current_price_def iloc_last_def split: sum.split)
  show ?thesis
    using len saved by (auto simp: nth step)
qed

text \<open>
  The theorem at the two-holding session: the provider raises for \<open>X\<close>, whose holding
  keeps its price 42, and answers for \<open>A\<close>, whose price becomes 150.
\<close>

theorem refresh_prices_keeps_stale_witness:
  "length (portfolio (refresh_prices failing_for_X scenario_session)) = 2 \<and>
   portfolio (refresh_prices failing_for_X scenario_session) ! 0 = stale_holding \<and>
   portfolio (refresh_prices failing_for_X scenario_session) ! 1 = scenario_holding 150"
proof -
  note inst = refresh_prices_keeps_stale [of failing_for_X scenario_session]
  have len: "length (portfolio scenario_session) = 2"
    by (simp add: scenario_session_def)
  have fails: "failing_for_X (symbol (portfolio scenario_session ! 0)) = Inl (ProviderError ''no data'')"
    by (simp add: scenario_session_def stale_holding_def failing_for_X_def)
  have answers: "failing_for_X (symbol (portfolio scenario_session ! 1)) = Inr [149, 150]"
    by (simp add: scenario_session_def scenario_holding_def failing_for_X_def)
  note each = inst [THEN conjunct2, THEN conjunct1, rule_format]
  have "portfolio (refresh_prices failing_for_X scenario_session) ! 0 = portfolio scenario_session ! 0"
    using each [of 0] fails len by simp
  moreover have "portfolio (refresh_prices failing_for_X scenario_session) ! 1 =
      (portfolio scenario_session ! 1)\<lparr>current_price := last [149, 150]\<rparr>"
    using each [of 1] answers len by simp
  ultimately show ?thesis
    using inst len by (simp add: scenario_session_def scenario_holding_def)
qed

section \<open>Properties of the derived metrics\<close>

subsection \<open>Numbers that float64 holds exactly\<close>

lemma odd_part_double: "odd_part (2 * n) = odd_part n"
  by (subst odd_part.simps) simp

lemma odd_part_mult_pow2: "odd_part (n * 2 ^ k) = odd_part n"
proof (induction k)
  case 0
  show ?case by simp
next
  case (Suc k)
  have "n * 2 ^ Suc k = 2 * (n * 2 ^ k)" by simp
  then show ?case using Suc by (simp only: odd_part_double)
qed

lemma odd_part_le: "0 \<le> n \<Longrightarrow> odd_part n \<le> n"
proof (induction n rule: odd_part.induct)
  case (1 n)
  show ?case
  proof (cases "n = 0 \<or> odd n")
    case True
    then show ?thesis by simp
  next
    case False
    then have "odd_part n = odd_part (n div 2)" by (subst odd_part.simps) simp
    moreover have "odd_part (n div 2) \<le> n div 2" using 1 False by simp
    moreover have "n div 2 \<le> n" using "1.prems" by simp
    ultimately show ?thesis by simp
  qed
qed

lemma on_grid:
  assumes "k \<le> N"
  shows "of_int n / 2 ^ k * (2::rat) ^ N = of_int (n * 2 ^ (N - k))"
proof -
  have "(2::rat) ^ N = 2 ^ k * 2 ^ (N - k)"
    using assms by (simp flip: power_add)
  then show ?thesis by simp
qed

lemma grid_binary64:
  assumes grid: "r * 2 ^ 1074 = of_int (m * 2 ^ j)"
    and sig: "\<bar>m\<bar> < 2 ^ 53" and mag: "\<bar>r\<bar> < 2 ^ 1024"
  shows "is_binary64 r"
proof -
  have fl: "\<lfloor>r * 2 ^ 1074\<rfloor> = m * 2 ^ j"
    by (simp only: grid floor_of_int)
  have "odd_part \<bar>m * 2 ^ j\<bar> = odd_part (\<bar>m\<bar> * 2 ^ j)"
    by (simp add: abs_mult)
  also have "\<dots> = odd_part \<bar>m\<bar>" by (rule odd_part_mult_pow2)
  also have "\<dots> \<le> \<bar>m\<bar>" by (rule odd_part_le) simp
  finally have "odd_part \<bar>m * 2 ^ j\<bar> < 2 ^ 53" using sig by simp
  with mag show ?thesis
    unfolding is_binary64_def fl by (simp only: grid)
qed

lemma is_binary64_scaled:
  assumes "\<bar>n\<bar> < 2 ^ 53" "k \<le> 1074"
  shows "is_binary64 (of_int n / 2 ^ k)"
proof (rule grid_binary64)
  show "of_int n / 2 ^ k * (2::rat) ^ 1074 = of_int (n * 2 ^ (1074 - k))"
    using assms(2) by (rule on_grid)
  show "\<bar>n\<bar> < 2 ^ 53" by (rule assms(1))
  have "\<bar>of_int n / (2::rat) ^ k\<bar> = \<bar>of_int n\<bar> / 2 ^ k" by simp
  also have "\<dots> \<le> \<bar>of_int n\<bar>"
  proof -
    have "(1::rat) \<le> 2 ^ k" by simp
    then show ?thesis by (simp add: divide_le_eq mult_le_cancel_left1)
  qed
  also have "\<dots> < 2 ^ 53"
    using assms(1) by (metis of_int_abs of_int_less_numeral_power_cancel_iff)
  also have "\<dots> < (2::rat) ^ 1024" by (rule power_strict_increasing) simp_all
  finally show "\<bar>of_int n / (2::rat) ^ k\<bar> < 2 ^ 1024" .
qed

lemma is_binary64_int: "\<bar>n\<bar> < 2 ^ 53 \<Longrightarrow> is_binary64 (of_int n)"
  using is_binary64_scaled [of n 0] by simp




lemma binary64_small:
  "is_binary64 100" "is_binary64 150" "is_binary64 0" "is_binary64 (1 / 2)" "is_binary64 50"
  using is_binary64_int [of 100] is_binary64_int [of 150] is_binary64_int [of 0]
    is_binary64_scaled [of 1 1] is_binary64_int [of 50]
  by simp_all


subsection \<open>The rows of the data frame\<close>

lemma compute_rows_map:
  "compute_rows hs = map (\<lambda>h.
      \<lparr>investment_cell = cell_mul (quantity h) (buy_price h),
       current_value_cell = cell_mul (quantity h) (current_price h),
       pnl_cell = cell_sub (cell_mul (quantity h) (current_price h))
                    (cell_mul (quantity h) (buy_price h)),
       pnl_pct_cell = cell_times
         (cell_truediv
            (cell_sub (cell_mul (quantity h) (current_price h))
               (cell_mul (quantity h) (buy_price h)))
            (cell_mul (quantity h) (buy_price h))) 100\<rparr>) hs"
  by (induction hs)
    (simp_all add: compute_rows_def frame_rows_def series_mul_def series_sub_def
       series_truediv_def series_times_def Let_def)





lemma scenario_numeric:
  "numeric_columns [scenario_holding 100, scenario_holding 150]"
  "numeric_columns [scenario_holding 150, (scenario_holding 150)\<lparr>quantity := 0\<rparr>]"
  by (simp_all add: numeric_columns_def numeric_price_def scenario_holding_def binary64_small)




text \<open>
  Claim C3, as the code has it. The division is not guarded: in a data frame of numeric
  columns, for every holding whose investment \<open>quantity * buy_price\<close> is 0 the investment
  cell holds 0, the division by it is carried out, and the percentage cell holds a
  non-finite value (\<open>inf\<close>, \<open>-inf\<close> or \<open>nan\<close>).
\<close>

theorem pnl_pct_division_unguarded:
  assumes "numeric_columns hs"
  shows "\<forall>i < length hs. of_int (quantity (hs ! i)) * buy_price (hs ! i) = 0 \<longrightarrow>
     investment_cell (compute_rows hs ! i) = Holds 0 \<and>
     pnl_pct_cell (compute_rows hs ! i) = NotFinite"
proof (intro allI impI)
  fix i
  assume i: "i < length hs" and z: "of_int (quantity (hs ! i)) * buy_price (hs ! i) = 0"
  from z have "quantity (hs ! i) = 0 \<or> buy_price (hs ! i) = 0" by simp
  then have inv: "cell_mul (quantity (hs ! i)) (buy_price (hs ! i)) = Holds 0"
    by (auto simp: cell_mul_def)
  have div0: "cell_truediv x (Holds 0) = NotFinite" for x by simp
  show "investment_cell (compute_rows hs ! i) = Holds 0 \<and>
     pnl_pct_cell (compute_rows hs ! i) = NotFinite"
    using i by (simp add: compute_rows_map inv div0)
qed

text \<open>The theorem at a portfolio of the scenario holding and a copy of it with no shares.\<close>

theorem pnl_pct_division_unguarded_witness:
  "numeric_columns [scenario_holding 150, (scenario_holding 150)\<lparr>quantity := 0\<rparr>] \<and>
   of_int (quantity ([scenario_holding 150, (scenario_holding 150)\<lparr>quantity := 0\<rparr>] ! 1)) *
     buy_price ([scenario_holding 150, (scenario_holding 150)\<lparr>quantity := 0\<rparr>] ! 1) = 0 \<and>
   pnl_pct_cell
     (compute_rows [scenario_holding 150, (scenario_holding 150)\<lparr>quantity := 0\<rparr>] ! 1)
     = NotFinite"
  using pnl_pct_division_unguarded [OF scenario_numeric(2), rule_format, of 1]
    scenario_numeric(2)
  by (simp add: scenario_holding_def)

text \<open>
  Claim C3 as stated fails: for a holding bought at price 0 the division by the zero
  investment is carried out and the percentage is not a number.
\<close>

theorem pnl_pct_zero_investment_counterexample:
  "numeric_columns [(scenario_holding 100)\<lparr>buy_price := 0\<rparr>] \<and>
   map pnl_pct_cell (compute_rows [(scenario_holding 100)\<lparr>buy_price := 0\<rparr>]) = [NotFinite]"
  by (simp add: compute_rows_map scenario_holding_def cell_mul_def numeric_columns_def
      numeric_price_def binary64_small)

section \<open>Properties of the handlers\<close>

lemma keep_all_above:
  "m < n \<Longrightarrow> [item. (i, item) \<leftarrow> enumerate n xs, int i \<noteq> int m] = xs"
  by (induction xs arbitrary: n) simp_all

lemma remove_comprehension:
  "[item. (i, item) \<leftarrow> enumerate n xs, int i \<noteq> int (n + k)] = take k xs @ drop (Suc k) xs"
proof (induction xs arbitrary: n k)
  case Nil
  show ?case by simp
next
  case (Cons x xs)
  show ?case
  proof (cases k)
    case 0
    have "[item. (i, item) \<leftarrow> enumerate (Suc n) xs, int i \<noteq> int n] = xs"
      by (rule keep_all_above) simp
    then show ?thesis using 0 by simp
  next
    case (Suc k')
    with Cons.IH [of "Suc n" k'] show ?thesis by simp
  qed
qed

lemma remove_in_range:
  assumes "0 \<le> i" "i < int (length (portfolio st))"
  shows "remove_selected_stock i st =
    (save_portfolio (take (nat i) (portfolio st) @ drop (Suc (nat i)) (portfolio st)) st,
     [Success (''Removed '' @ symbol (portfolio st ! nat i) @ '' from portfolio!'')])"
proof -
  have "int (0 + nat i) = i" using assms by simp
  then have "[item. (j, item) \<leftarrow> enumerate 0 (portfolio st), int j \<noteq> i]
      = take (nat i) (portfolio st) @ drop (Suc (nat i)) (portfolio st)"
    using remove_comprehension [where n = 0 and xs = "portfolio st" and k = "nat i"] by simp
  with assms show ?thesis by (simp add: remove_selected_stock_def Let_def)
qed

text \<open>
  Claim C4, as the code has it. For an index outside \<open>[0, len)\<close> the remove handler does
  nothing at all: the session (the holdings and the persisted copy) is unchanged and no
  message, hence no error, is shown.
\<close>

theorem remove_out_of_range_silent:
  "\<not> (0 \<le> i \<and> i < int (length (portfolio st))) \<Longrightarrow> remove_selected_stock i st = (st, [])"
  by (simp add: remove_selected_stock_def)

text \<open>The theorem at the index -1 of the two-holding session.\<close>

theorem remove_out_of_range_silent_witness:
  "\<not> (0 \<le> (- 1 :: int) \<and> (- 1 :: int) < int (length (portfolio scenario_session))) \<and>
   remove_selected_stock (- 1) scenario_session = (scenario_session, [])"
  using remove_out_of_range_silent [of "- 1" scenario_session] by simp

text \<open>
  Claim C4 as stated fails: removing at index 2 of a portfolio of length 2 reports
  nothing, so no out-of-range failure reaches the caller.
\<close>

theorem remove_out_of_range_counterexample:
  "snd (remove_selected_stock 2 scenario_session) = []"
  by (simp add: remove_selected_stock_def scenario_session_def)

text \<open>
  Claim C8. For an index inside \<open>[0, len)\<close> the portfolio after the removal is the old one
  without the element at that position: one element shorter, the elements before the
  position where they were, the elements after it moved one place down, and this list is
  the one handed to persistence.
\<close>

theorem remove_at_in_range:
  assumes "0 \<le> i" "i < int (length (portfolio st))"
  shows "portfolio (fst (remove_selected_stock i st)) =
           take (nat i) (portfolio st) @ drop (Suc (nat i)) (portfolio st) \<and>
         length (portfolio (fst (remove_selected_stock i st))) = length (portfolio st) - 1 \<and>
         (\<forall>j < nat i. portfolio (fst (remove_selected_stock i st)) ! j = portfolio st ! j) \<and>
         (\<forall>j. nat i \<le> j \<and> j < length (portfolio st) - 1 \<longrightarrow>
            portfolio (fst (remove_selected_stock i st)) ! j = portfolio st ! Suc j) \<and>
         query_portfolio (fst (remove_selected_stock i st)) =
           Some (portfolio (fst (remove_selected_stock i st)))"
proof -
  let ?old = "portfolio st"
  let ?new = "take (nat i) ?old @ drop (Suc (nat i)) ?old"
  have lt: "nat i < length ?old" using assms by simp
  have new: "portfolio (fst (remove_selected_stock i st)) = ?new"
    and saved: "query_portfolio (fst (remove_selected_stock i st)) = Some ?new"
    using assms by (simp_all add: remove_in_range save_portfolio_def)
  have len: "length ?new = length ?old - 1" using lt by simp
  have before: "?new ! j = ?old ! j" if "j < nat i" for j
    using that lt by (simp add: nth_append)
  have after: "?new ! j = ?old ! Suc j" if "nat i \<le> j" "j < length ?old - 1" for j
    using that lt by (simp add: nth_append min_def)
  show ?thesis
    using new saved len before after by simp
qed

text \<open>The theorem at the middle index of a portfolio of three holdings.\<close>

theorem remove_at_in_range_witness:
  "(0 :: int) \<le> 1 \<and>
   (1 :: int) < int (length (portfolio
      \<lparr>portfolio = [stale_holding, scenario_holding 100, scenario_holding 150],
        query_portfolio = None\<rparr>)) \<and>
   portfolio (fst (remove_selected_stock 1
      \<lparr>portfolio = [stale_holding, scenario_holding 100, scenario_holding 150],
        query_portfolio = None\<rparr>)) = [stale_holding, scenario_holding 150]"
  using remove_at_in_range [of 1
      "\<lparr>portfolio = [stale_holding, scenario_holding 100, scenario_holding 150],
         query_portfolio = None\<rparr>"]
  by simp

text \<open>
  Claim C5, as the code has it. The add handler rejects a record exactly when its symbol
  is empty: then it shows an error and leaves the session unchanged. Every record with a
  non-empty symbol, whatever its quantity and buy price, is appended at the end of the
  portfolio and handed to persistence, and a success message is shown.
\<close>

theorem add_validates_symbol_only:
  "(ticker_symbol = [] \<longrightarrow>
      add_to_portfolio ticker_symbol nm qty price date cur exch st =
        (st, [Error ''Please select a valid stock''])) \<and>
   (ticker_symbol \<noteq> [] \<longrightarrow>
      portfolio (fst (add_to_portfolio ticker_symbol nm qty price date cur exch st)) =
        portfolio st @ [\<lparr>symbol = ticker_symbol, name = nm, quantity = qty, buy_price = price,
                         buy_date = date, current_price = cur, exchange = exch\<rparr>] \<and>
      query_portfolio (fst (add_to_portfolio ticker_symbol nm qty price date cur exch st)) =
        Some (portfolio (fst (add_to_portfolio ticker_symbol nm qty price date cur exch st))) \<and>
      snd (add_to_portfolio ticker_symbol nm qty price date cur exch st) =
        [Success (''Added '' @ ticker_symbol @ '' to portfolio!'')])"
  by (simp add: add_to_portfolio_def save_portfolio_def Let_def)

text \<open>The theorem at an empty symbol, and at the symbol \<open>A\<close> with valid numbers.\<close>

theorem add_validates_symbol_only_witness:
  "add_to_portfolio [] ''Alpha'' 10 100 ''2023-01-02'' 100 ''NSE'' scenario_session =
     (scenario_session, [Error ''Please select a valid stock'']) \<and>
   portfolio (fst (add_to_portfolio ''A'' ''Alpha'' 10 100 ''2023-01-02'' 150 ''NSE''
       scenario_session)) =
     [stale_holding, scenario_holding 100, scenario_holding 150]"
  using
    add_validates_symbol_only
      [of "[]" "''Alpha''" 10 100 "''2023-01-02''" 100 "''NSE''" scenario_session]
    add_validates_symbol_only
      [of "''A''" "''Alpha''" 10 100 "''2023-01-02''" 150 "''NSE''" scenario_session]
  by (simp add: scenario_session_def scenario_holding_def)

text \<open>
  Claim C5 as stated fails: a record with quantity 0 and buy price 0 is not rejected; it
  is appended and reported as added.
\<close>

theorem add_unchecked_quantity_counterexample:
  "add_to_portfolio ''A'' ''Alpha'' 0 0 ''2023-01-02'' 100 ''NSE''
       \<lparr>portfolio = [], query_portfolio = None\<rparr> =
     (\<lparr>portfolio = [(scenario_holding 100)\<lparr>quantity := 0, buy_price := 0\<rparr>],
       query_portfolio = Some [(scenario_holding 100)\<lparr>quantity := 0, buy_price := 0\<rparr>]\<rparr>,
      [Success ''Added A to portfolio!''])"
  by (simp add: add_to_portfolio_def save_portfolio_def scenario_holding_def Let_def)

section \<open>Properties of the historical price\<close>

lemma window_filter:
  "filter (\<lambda>(d, c). d \<le> date) (yf_download history (date - 7) (date + 1))
   = filter (\<lambda>s. date - 7 \<le> fst s \<and> fst s \<le> date) history"
  by (auto simp: yf_download_def intro: filter_cong)

lemma yf_download_empty:
  "yf_download history (date - 7) (date + 1) = [] \<Longrightarrow>
   filter (\<lambda>s. date - 7 \<le> fst s \<and> fst s \<le> date) history = []"
  by (auto simp: yf_download_def filter_empty_conv)

lemma get_historical_price_window:
  "get_historical_price (Inr history) date =
     (let w = filter (\<lambda>s. date - 7 \<le> fst s \<and> fst s \<le> date) history
      in if w = [] then None else Some (snd (last w)))"
  using yf_download_empty [of history date]
  by (auto simp: get_historical_price_def Let_def window_filter)

lemma sorted_fst_last:
  "sorted (map fst xs) \<Longrightarrow> x \<in> set xs \<Longrightarrow> fst x \<le> fst (last xs)"
proof (induction xs)
  case Nil
  then show ?case by simp
next
  case (Cons y ys)
  show ?case
  proof (cases "ys = []")
    case True
    with Cons.prems show ?thesis by simp
  next
    case False
    then have l: "last ys \<in> set ys" by simp
    from Cons.prems have "sorted (map fst ys)" by simp
    with Cons.IH have ih: "x \<in> set ys \<Longrightarrow> fst x \<le> fst (last ys)" by simp
    from Cons.prems(1) l have "fst y \<le> fst (last ys)" by auto
    with ih Cons.prems(2) False show ?thesis by auto
  qed
qed

text \<open>
  Claim C6. On a history in ascending date order, the historical price is the close of
  the most recent session on or before the requested date, and that session lies at most
  7 days before the date; it is nothing exactly when the history has no session in those
  days, and nothing when the provider raises.
\<close>

theorem get_historical_price_most_recent:
  assumes "sorted (map fst history)"
  shows "get_historical_price (Inl e) date = None \<and>
    (case get_historical_price (Inr history) date of
       None \<Rightarrow> \<not> (\<exists>s \<in> set history. date - 7 \<le> fst s \<and> fst s \<le> date)
     | Some p \<Rightarrow> \<exists>d. (d, p) \<in> set history \<and> date - 7 \<le> d \<and> d \<le> date \<and>
                   (\<forall>s \<in> set history. fst s \<le> date \<longrightarrow> fst s \<le> d))"
proof -
  define w where "w = filter (\<lambda>s. date - 7 \<le> fst s \<and> fst s \<le> date) history"
  have res: "get_historical_price (Inr history) date =
      (if w = [] then None else Some (snd (last w)))"
    by (simp add: get_historical_price_window w_def Let_def)
  have err: "get_historical_price (Inl e) date = None"
    by (simp add: get_historical_price_def)
  show ?thesis
  proof (cases "w = []")
    case True
    then have "\<not> (\<exists>s \<in> set history. date - 7 \<le> fst s \<and> fst s \<le> date)"
      by (auto simp: w_def filter_empty_conv)
    with True res err show ?thesis by simp
  next
    case False
    then have mem: "last w \<in> set w" by simp
    then have inh: "last w \<in> set history"
      and lo: "date - 7 \<le> fst (last w)" and hi: "fst (last w) \<le> date"
      by (auto simp: w_def)
    have sw: "sorted (map fst w)"
      unfolding w_def using assms by (rule sorted_filter)
    have top: "fst s \<le> fst (last w)" if "s \<in> set history" "fst s \<le> date" for s
    proof (cases "date - 7 \<le> fst s")
      case True
      with that have "s \<in> set w" by (simp add: w_def)
      with sw show ?thesis by (rule sorted_fst_last)
    next
      case False
      with lo show ?thesis by simp
    qed
    have "(fst (last w), snd (last w)) \<in> set history" using inh by simp
    with lo hi top
    have "\<exists>d. (d, snd (last w)) \<in> set history \<and> date - 7 \<le> d \<and> d \<le> date \<and>
        (\<forall>s \<in> set history. fst s \<le> date \<longrightarrow> fst s \<le> d)"
      by blast
    with False res err show ?thesis by simp
  qed
qed

text \<open>
  The theorem at the scenario history: on day 20 the price is the close 102 of day 17,
  and on day 30, more than a week after the last session, there is none.
\<close>

theorem get_historical_price_most_recent_witness:
  "sorted (map fst scenario_history) \<and>
   get_historical_price (Inr scenario_history) 20 = Some 102 \<and>
   get_historical_price (Inr scenario_history) 30 = None"
proof -
  have asc: "sorted (map fst scenario_history)"
    by (simp add: scenario_history_def)
  have "get_historical_price (Inr scenario_history) 20 = Some 102"
    using get_historical_price_most_recent [OF asc, of IndexError 20]
    by (auto simp: scenario_history_def split: option.splits)
  moreover have "get_historical_price (Inr scenario_history) 30 = None"
    using get_historical_price_most_recent [OF asc, of IndexError 30]
    by (auto simp: scenario_history_def split: option.splits)
  ultimately show ?thesis using asc by simp
qed

section \<open>Properties of the ticker search\<close>

lemma recommendations_loop_map:
  "recommendations_loop acc qs = acc @ map recommendation_of qs"
  by (induction qs arbitrary: acc) simp_all

text \<open>
  Claim C10. The search gives at most 8 recommendations. On a provider error it gives the
  empty list. Otherwise it gives one recommendation for each of the first 8 quotes of the
  answer, in their order, carrying the quote's symbol, its short name (the long name when
  there is no short name) and its exchange, with the defaults of the code for a missing
  key.
\<close>

theorem get_ticker_recommendations_at_most_8:
  "length (fst (get_ticker_recommendations response)) \<le> 8 \<and>
   fst (get_ticker_recommendations (Inl e)) = [] \<and>
   fst (get_ticker_recommendations (Inr data)) =
     map recommendation_of (take 8 (case data ''quotes'' of None \<Rightarrow> [] | Some qs \<Rightarrow> qs)) \<and>
   rec_symbol (recommendation_of q) = (case q ''symbol'' of None \<Rightarrow> [] | Some s \<Rightarrow> s) \<and>
   rec_name (recommendation_of q) =
     (case q ''shortname'' of
        Some n \<Rightarrow> n
      | None \<Rightarrow> (case q ''longname'' of Some n \<Rightarrow> n | None \<Rightarrow> [])) \<and>
   rec_exchange (recommendation_of q) =
     (case q ''exchange'' of None \<Rightarrow> ''Unknown'' | Some x \<Rightarrow> x)"
proof -
  have "length (fst (get_ticker_recommendations response)) \<le> 8"
    by (cases response) (simp_all add: get_ticker_recommendations_def recommendations_loop_map)
  moreover have "fst (get_ticker_recommendations (Inr data)) =
     map recommendation_of (take 8 (case data ''quotes'' of None \<Rightarrow> [] | Some qs \<Rightarrow> qs))"
    by (simp add: get_ticker_recommendations_def recommendations_loop_map dict_get_def)
  ultimately show ?thesis
    by (simp add: get_ticker_recommendations_def recommendation_of_def dict_get_def Let_def
        split: option.split)
qed

section \<open>Properties of the portfolio totals\<close>

text \<open>
  Claim C7. The totals of the empty row sequence are all 0, and in general the total
  percentage is 0 when the total investment is 0 and the quotient otherwise.
\<close>

theorem aggregate_empty:
  "aggregate [] =
     \<lparr>total_investment = 0, total_current_value = 0, total_pnl = 0, total_pnl_pct = 0\<rparr> \<and>
   total_pnl_pct (aggregate rows) =
     (if total_investment (aggregate rows) = 0 then 0
      else total_pnl (aggregate rows) / total_investment (aggregate rows) * 100)"
  by (simp add: aggregate_def Let_def)

end
